theory Spec2Isabelle
  imports Main "HOL-Library.Sublist"
begin

section \<open>JavaScript values\<close>

text \<open>
  The components receive decoded JSON from the backend and pass it on unchecked, so the
  model keeps JavaScript's dynamic values. \<open>JObj\<close> is a decoded object: the list of its own
  properties, each key once. \<open>JStr\<close> is a string as the list of its code units. \<open>JNum\<close>
  holds the integer numbers; the numbers the program computes itself (array and string
  lengths, HTTP status codes) are non-negative integers. A JSON number with a fraction or
  an exponent is a floating-point value and has no counterpart here.
\<close>

datatype jsval =
    JUndefined
  | JNull
  | JBool bool
  | JNum int
  | JStr string
  | JArr "jsval list"
  | is_JObj: JObj "(string \<times> jsval) list"

text \<open>
  A thrown value. Every \<open>catch\<close> block of the program reads only \<open>.message\<close>. The
  wording of the messages the engine itself raises is V8's.
\<close>

datatype js_error = Error string | TypeError string | SyntaxError string

fun error_message :: "js_error \<Rightarrow> string" where
  "error_message (Error m) = m"
| "error_message (TypeError m) = m"
| "error_message (SyntaxError m) = m"

text \<open>A computation that may throw; \<open>and_then\<close> sequences two of them.\<close>

definition and_then :: "'e + 'a \<Rightarrow> ('a \<Rightarrow> 'e + 'b) \<Rightarrow> 'e + 'b" where
  "and_then r f = (case r of Inl e \<Rightarrow> Inl e | Inr v \<Rightarrow> f v)"

text \<open>ToBoolean: what \<open>!v\<close>, \<open>v || w\<close>, \<open>v && w\<close> and \<open>v ? a : b\<close> test.\<close>

fun truthy :: "jsval \<Rightarrow> bool" where
  "truthy JUndefined = False"
| "truthy JNull = False"
| "truthy (JBool b) = b"
| "truthy (JNum n) = (n \<noteq> 0)"
| "truthy (JStr s) = (s \<noteq> [])"
| "truthy (JArr xs) = True"
| "truthy (JObj kvs) = True"

text \<open>\<open>a || b\<close>\<close>

definition js_or :: "jsval \<Rightarrow> jsval \<Rightarrow> jsval" where
  "js_or a b = (if truthy a then a else b)"

text \<open>
  The decimal digits of an integer, which is how a template literal prints one (below
  \<open>10^21\<close> in magnitude, far above any length or status code).
\<close>

definition digit_char :: "nat \<Rightarrow> char" where
  "digit_char d = ''0123456789'' ! d"

fun show_nat :: "nat \<Rightarrow> string" where
  "show_nat n =
     (if n < 10 then [digit_char n] else show_nat (n div 10) @ [digit_char (n mod 10)])"

declare show_nat.simps [simp del]

definition show_int :: "int \<Rightarrow> string" where
  "show_int i = (if i < 0 then CHR ''-'' # show_nat (nat (- i)) else show_nat (nat i))"

text \<open>
  Reading a property, \<open>v.p\<close>, for the names the program reads: \<open>length\<close>, \<open>detail\<close>,
  \<open>lead_ids\<close>, \<open>id\<close> and \<open>name\<close>. On \<open>null\<close> and \<open>undefined\<close> the read throws a
  TypeError; on an array or a string only \<open>length\<close> of these names exists.
\<close>

definition cannot_read :: "string \<Rightarrow> string \<Rightarrow> js_error" where
  "cannot_read v p =
     TypeError (''Cannot read properties of '' @ v @ '' (reading '' @ [CHR 0x27] @ p
                @ [CHR 0x27] @ '')'')"

fun get_prop :: "jsval \<Rightarrow> string \<Rightarrow> js_error + jsval" where
  "get_prop JUndefined p = Inl (cannot_read ''undefined'' p)"
| "get_prop JNull p = Inl (cannot_read ''null'' p)"
| "get_prop (JObj kvs) p = Inr (case map_of kvs p of None \<Rightarrow> JUndefined | Some v \<Rightarrow> v)"
| "get_prop (JArr xs) p = Inr (if p = ''length'' then JNum (int (length xs)) else JUndefined)"
| "get_prop (JStr s) p = Inr (if p = ''length'' then JNum (int (length s)) else JUndefined)"
| "get_prop (JBool b) p = Inr JUndefined"
| "get_prop (JNum n) p = Inr JUndefined"

text \<open>
  ToString, which a template literal applies to each \<open>${...}\<close>. An array is joined with
  commas, \<open>null\<close> and \<open>undefined\<close> elements printing as nothing. A decoded object prints
  as \<open>[object Object]\<close>, unless it has an own property \<open>toString\<close>: that one is no
  function, and the conversion throws.
\<close>

fun to_string :: "jsval \<Rightarrow> js_error + string"
  and join_elems :: "jsval list \<Rightarrow> js_error + string" where
  "to_string JUndefined = Inr ''undefined''"
| "to_string JNull = Inr ''null''"
| "to_string (JBool b) = Inr (if b then ''true'' else ''false'')"
| "to_string (JNum n) = Inr (show_int n)"
| "to_string (JStr s) = Inr s"
| "to_string (JArr xs) = join_elems xs"
| "to_string (JObj kvs) =
     (if map_of kvs ''toString'' = None then Inr ''[object Object]''
      else Inl (TypeError ''Cannot convert object to primitive value''))"
| "join_elems [] = Inr []"
| "join_elems (x # xs) =
     (case (if x = JNull \<or> x = JUndefined then Inr [] else to_string x) of
        Inl e \<Rightarrow> Inl e
      | Inr s \<Rightarrow>
          (if xs = [] then Inr s
           else (case join_elems xs of Inl e \<Rightarrow> Inl e | Inr t \<Rightarrow> Inr (s @ '','' @ t))))"

text \<open>\<open>v.map(f)\<close> with a callback that may throw. Only an array has \<open>map\<close>.\<close>

fun map_elems :: "('a \<Rightarrow> 'e + 'b) \<Rightarrow> 'a list \<Rightarrow> 'e + 'b list" where
  "map_elems f [] = Inr []"
| "map_elems f (x # xs) =
     and_then (f x) (\<lambda>y. and_then (map_elems f xs) (\<lambda>ys. Inr (y # ys)))"

fun array_map :: "string \<Rightarrow> jsval \<Rightarrow> (jsval \<Rightarrow> js_error + 'b) \<Rightarrow> js_error + 'b list" where
  "array_map name (JArr xs) f = map_elems f xs"
| "array_map name JUndefined f = Inl (cannot_read ''undefined'' ''map'')"
| "array_map name JNull f = Inl (cannot_read ''null'' ''map'')"
| "array_map name v f = Inl (TypeError (name @ ''.map is not a function''))"

section \<open>The backend, as the components see it\<close>

text \<open>
  \<open>fetch\<close> either rejects or resolves to a response, of which the program reads \<open>ok\<close>,
  \<open>status\<close> and \<open>json()\<close>; \<open>json()\<close> in turn rejects (the body is no JSON) or resolves
  to the decoded value.
\<close>

datatype json_outcome = JsonOk jsval | JsonRejected js_error

record response =
  ok :: bool
  status :: nat
  json :: json_outcome

datatype fetch_outcome = Resolved response | Rejected js_error

definition await_fetch :: "fetch_outcome \<Rightarrow> js_error + response" where
  "await_fetch out = (case out of Resolved r \<Rightarrow> Inr r | Rejected e \<Rightarrow> Inl e)"

definition await_json :: "response \<Rightarrow> js_error + jsval" where
  "await_json r = (case json r of JsonOk v \<Rightarrow> Inr v | JsonRejected e \<Rightarrow> Inl e)"

text \<open>
  The \<open>try\<close> block of \<open>fetchAgents\<close>, up to the value handed to \<open>setAgents\<close>. Dashboard.jsx
  and CreateCampaign.jsx each carry the same block.
\<close>

definition fetchAgents_try :: "fetch_outcome \<Rightarrow> js_error + jsval" where
  "fetchAgents_try out =
     and_then (await_fetch out) (\<lambda>response.
       if \<not> ok response
       then Inl (Error (''HTTP error! status: '' @ show_nat (status response)))
       else await_json response)"

section \<open>App.jsx\<close>

text \<open>The element \<open>renderContent\<close> returns: which component, with its \<open>apiBaseUrl\<close> prop.\<close>

datatype content = Dashboard_element string | CreateCampaign_element string

definition API_BASE_URL :: string where
  "API_BASE_URL = ''http://localhost:8000''"

text \<open>
  \<open>renderContent\<close> switches on \<open>activeSection\<close>, which \<open>useState\<close> starts at
  \<open>'dashboard'\<close> and the sidebar sets to a string.
\<close>

definition renderContent :: "string \<Rightarrow> content" where
  "renderContent activeSection =
     (if activeSection = ''dashboard'' then Dashboard_element API_BASE_URL
      else if activeSection = ''create-campaign'' then CreateCampaign_element API_BASE_URL
      else Dashboard_element API_BASE_URL)"

section \<open>AgentCard.jsx\<close>

text \<open>
  What a component returns is modelled as the element it builds, its children kept as
  the values handed to React. \<open>AgentCard\<close> returns \<open>null\<close> for a falsy agent.
\<close>

record card_view =
  heading :: jsval
  id_text :: jsval

definition AgentCard :: "jsval \<Rightarrow> js_error + card_view option" where
  "AgentCard agent =
     (if \<not> truthy agent then Inr None
      else and_then (get_prop agent ''name'') (\<lambda>name.
           and_then (get_prop agent ''id'') (\<lambda>id.
             Inr (Some \<lparr>heading = js_or name (JStr ''Unnamed Agent''), id_text = id\<rparr>))))"

section \<open>AgentSelect.jsx\<close>

text \<open>An \<open><option key={agent.id} value={agent.id}>\<close> element and its child.\<close>

record option_element =
  option_key :: jsval
  option_value :: jsval
  option_label :: jsval

datatype select_view =
    Loading_agents_p
  | Error_p jsval
  | No_agents_available
  | Select string "option_element list"

definition AgentSelect :: "jsval \<Rightarrow> string \<Rightarrow> bool \<Rightarrow> jsval \<Rightarrow> js_error + select_view" where
  "AgentSelect agents selectedAgent loading error =
     (if loading then Inr Loading_agents_p
      else if truthy error then Inr (Error_p error)
      else and_then (get_prop agents ''length'') (\<lambda>n.
             if n = JNum 0 then Inr No_agents_available
             else and_then
                    (array_map ''agents'' agents (\<lambda>agent.
                       and_then (get_prop agent ''id'') (\<lambda>id.
                       and_then (get_prop agent ''name'') (\<lambda>name.
                         Inr \<lparr>option_key = id, option_value = id,
                              option_label = js_or name id\<rparr>))))
                    (\<lambda>options. Inr (Select selectedAgent options))))"

section \<open>Dashboard.jsx\<close>

record dashboard_state =
  agents :: jsval
  loading :: bool
  error :: jsval

definition initial_dashboard_state :: dashboard_state where
  "initial_dashboard_state =
     \<lparr>dashboard_state.agents = JArr [], dashboard_state.loading = True,
      dashboard_state.error = JNull\<rparr>"

text \<open>The state once the promise of \<open>fetchAgents\<close> has settled with \<open>out\<close>.\<close>

definition Dashboard_fetchAgents :: "fetch_outcome \<Rightarrow> dashboard_state \<Rightarrow> dashboard_state" where
  "Dashboard_fetchAgents out st =
     (case fetchAgents_try out of
        Inr data \<Rightarrow> st\<lparr>dashboard_state.agents := data\<rparr>
      | Inl e \<Rightarrow> st\<lparr>dashboard_state.error := JStr (error_message e)\<rparr>)
     \<lparr>dashboard_state.loading := False\<rparr>"

text \<open>An \<open><AgentCard key={agent.id} agent={agent} />\<close> element.\<close>

record card_element =
  key :: jsval
  agent :: jsval

datatype dashboard_view =
    Loading_agents
  | Error_loading_agents jsval
  | No_agents_found
  | Agent_grid "card_element list"

definition Dashboard :: "dashboard_state \<Rightarrow> js_error + dashboard_view" where
  "Dashboard st =
     (if dashboard_state.loading st then Inr Loading_agents
      else if truthy (dashboard_state.error st)
      then Inr (Error_loading_agents (dashboard_state.error st))
      else and_then (get_prop (dashboard_state.agents st) ''length'') (\<lambda>n.
             if n = JNum 0 then Inr No_agents_found
             else and_then
                    (array_map ''agents'' (dashboard_state.agents st) (\<lambda>agent.
                       and_then (get_prop agent ''id'') (\<lambda>id.
                         Inr \<lparr>key = id, agent = agent\<rparr>)))
                    (\<lambda>cards. Inr (Agent_grid cards))))"

section \<open>FileUpload.jsx\<close>

text \<open>
  The file state is \<open>null\<close> at first; \<open>onFileChange\<close> stores \<open>event.target.files[0]\<close>,
  which is \<open>undefined\<close> when the picker comes back with no file.
\<close>

datatype selected_file = Null | Undefined | File (file_name: string) (file_data: string)

fun file_truthy :: "selected_file \<Rightarrow> bool" where
  "file_truthy Null = False"
| "file_truthy Undefined = False"
| "file_truthy (File n d) = True"

definition onFileChange :: "(string \<times> string) list \<Rightarrow> selected_file" where
  "onFileChange files = (case files of [] \<Rightarrow> Undefined | (n, d) # rest \<Rightarrow> File n d)"

section \<open>AlertMessage.jsx\<close>

text \<open>The alert's colours, the name of its icon component, and its text.\<close>

record alert_view =
  bgColor :: string
  textColor :: string
  Icon :: string
  alert_text :: string

definition AlertMessage :: "string \<Rightarrow> string \<Rightarrow> alert_view" where
  "AlertMessage type msg =
     \<lparr>bgColor = (if type = ''success'' then ''bg-green-100'' else ''bg-red-100''),
      textColor = (if type = ''success'' then ''text-green-800'' else ''text-red-800''),
      Icon = (if type = ''success'' then ''CircleCheck'' else ''XCircle''),
      alert_text = msg\<rparr>"

section \<open>CreateCampaign.jsx\<close>

record campaign_state =
  selectedFile :: selected_file
  message :: string
  messageType :: string
  loading :: bool
  agents :: jsval
  selectedAgent :: string
  agentLoading :: bool
  agentError :: jsval

definition initial_campaign_state :: campaign_state where
  "initial_campaign_state =
     \<lparr>selectedFile = Null, message = [], messageType = [], loading = False,
      agents = JArr [], selectedAgent = [], agentLoading = True, agentError = JNull\<rparr>"

text \<open>The state once the promise of this component's \<open>fetchAgents\<close> has settled.\<close>

definition CreateCampaign_fetchAgents :: "fetch_outcome \<Rightarrow> campaign_state \<Rightarrow> campaign_state" where
  "CreateCampaign_fetchAgents out st =
     (case fetchAgents_try out of
        Inr data \<Rightarrow> st\<lparr>agents := data\<rparr>
      | Inl e \<Rightarrow> st\<lparr>agentError := JStr (error_message e)\<rparr>)
     \<lparr>agentLoading := False\<rparr>"

text \<open>The multipart request of \<open>handleCreateCampaign\<close>: the form data and the POST.\<close>

datatype form_value = FormFile selected_file | FormText string

record request =
  url :: string
  http_method :: string
  body :: "(string \<times> form_value) list"

definition upload_request :: "string \<Rightarrow> campaign_state \<Rightarrow> request" where
  "upload_request apiBaseUrl st =
     \<lparr>url = apiBaseUrl @ ''/api/v1/upload-leads'', http_method = ''POST'',
      body = [(''file'', FormFile (selectedFile st)),
              (''agent_id'', FormText (selectedAgent st))]\<rparr>"

text \<open>
  \<open>handleCreateCampaign\<close> runs in two parts. Up to the \<open>await\<close> it validates, sets the
  in-flight flag and clears the message, and issues the request (or none). When the
  request settles, the \<open>try\<close> block reads the response, \<open>catch\<close> reports whatever was
  thrown, and \<open>finally\<close> resets the flag. The setters called after the \<open>await\<close> replace
  \<open>message\<close>, \<open>messageType\<close>, \<open>selectedFile\<close> and \<open>loading\<close>, so the second part is a
  function of the state at that moment. \<open>console.error\<close> is left out.
\<close>

definition handleCreateCampaign_begin ::
    "string \<Rightarrow> campaign_state \<Rightarrow> campaign_state \<times> request option" where
  "handleCreateCampaign_begin apiBaseUrl st =
     (if \<not> file_truthy (selectedFile st)
      then (st\<lparr>message := ''Please select a CSV file to upload.'',
               messageType := ''error''\<rparr>, None)
      else if selectedAgent st = []
      then (st\<lparr>message := ''Please select an agent for the campaign.'',
               messageType := ''error''\<rparr>, None)
      else (st\<lparr>loading := True, message := [], messageType := []\<rparr>,
            Some (upload_request apiBaseUrl st)))"

definition handleCreateCampaign_try ::
    "fetch_outcome \<Rightarrow> campaign_state \<Rightarrow> js_error + campaign_state" where
  "handleCreateCampaign_try out st =
     and_then (await_fetch out) (\<lambda>response.
       if ok response
       then and_then (await_json response) (\<lambda>data.
            and_then (get_prop data ''lead_ids'') (\<lambda>lead_ids.
            and_then (get_prop lead_ids ''length'') (\<lambda>n.
            and_then (to_string n) (\<lambda>count.
              Inr (st\<lparr>message := ''Campaign created! Processed '' @ count @ '' leads.'',
                      messageType := ''success'',
                      selectedFile := Null\<rparr>)))))
       else and_then (await_json response) (\<lambda>errorData.
            and_then (get_prop errorData ''detail'') (\<lambda>detail.
            and_then (to_string (js_or detail (JStr ''Unknown error''))) (\<lambda>text.
              Inr (st\<lparr>message := ''Campaign creation failed: '' @ text,
                      messageType := ''error''\<rparr>)))))"

definition handleCreateCampaign_settle ::
    "fetch_outcome \<Rightarrow> campaign_state \<Rightarrow> campaign_state" where
  "handleCreateCampaign_settle out st =
     (case handleCreateCampaign_try out st of
        Inr st' \<Rightarrow> st'
      | Inl err \<Rightarrow>
          st\<lparr>message := ''An error occurred: '' @ error_message err,
             messageType := ''error''\<rparr>)
     \<lparr>loading := False\<rparr>"

text \<open>
  The whole handler, no other event coming between the request and its outcome: the
  final state and the requests issued. \<open>net\<close> is the backend's answer to a request.
\<close>

definition handleCreateCampaign ::
    "string \<Rightarrow> (request \<Rightarrow> fetch_outcome) \<Rightarrow> campaign_state
       \<Rightarrow> campaign_state \<times> request list" where
  "handleCreateCampaign apiBaseUrl net st =
     (case handleCreateCampaign_begin apiBaseUrl st of
        (st1, None) \<Rightarrow> (st1, [])
      | (st1, Some rq) \<Rightarrow> (handleCreateCampaign_settle (net rq) st1, [rq]))"

text \<open>
  The submit button and the alert below it, as \<open>CreateCampaign\<close> renders them. Of the
  button's class list, \<open>className\<close> keeps the part that depends on the state. The alert
  is rendered only for a non-empty message.
\<close>

record button_view =
  disabled :: bool
  className :: string
  label :: string

definition CreateCampaign_button :: "campaign_state \<Rightarrow> button_view" where
  "CreateCampaign_button st =
     \<lparr>disabled = (\<not> file_truthy (selectedFile st) \<or> selectedAgent st = [] \<or> loading st),
      className =
        (if \<not> file_truthy (selectedFile st) \<or> selectedAgent st = [] \<or> loading st
         then ''bg-blue-300 cursor-not-allowed''
         else ''bg-blue-600 hover:bg-blue-700 focus:outline-none focus:ring-2 focus:ring-blue-500 focus:ring-offset-2''),
      label = (if loading st then ''Creating Campaign...'' else ''Create Campaign'')\<rparr>"

definition CreateCampaign_alert :: "campaign_state \<Rightarrow> alert_view option" where
  "CreateCampaign_alert st =
     (if message st = [] then None else Some (AlertMessage (messageType st) (message st)))"

definition CreateCampaign_select :: "campaign_state \<Rightarrow> js_error + select_view" where
  "CreateCampaign_select st =
     AgentSelect (agents st) (selectedAgent st) (agentLoading st) (agentError st)"

text \<open>
  The events the component reacts to, and the state after each: the agent fetch settling,
  the file picker and the agent control changing (wired to \<open>setSelectedFile\<close> and
  \<open>setSelectedAgent\<close>), a click on the button (none is delivered while it is disabled),
  and the upload settling.
\<close>

datatype event =
    AgentsSettled fetch_outcome
  | FileChanged "(string \<times> string) list"
  | AgentChanged string
  | ButtonClicked
  | UploadSettled fetch_outcome

fun step :: "string \<Rightarrow> campaign_state \<Rightarrow> event \<Rightarrow> campaign_state" where
  "step apiBaseUrl st (AgentsSettled out) = CreateCampaign_fetchAgents out st"
| "step apiBaseUrl st (FileChanged files) = st\<lparr>selectedFile := onFileChange files\<rparr>"
| "step apiBaseUrl st (AgentChanged v) = st\<lparr>selectedAgent := v\<rparr>"
| "step apiBaseUrl st ButtonClicked =
     (if disabled (CreateCampaign_button st) then st
      else fst (handleCreateCampaign_begin apiBaseUrl st))"
| "step apiBaseUrl st (UploadSettled out) = handleCreateCampaign_settle out st"

definition run :: "string \<Rightarrow> campaign_state \<Rightarrow> event list \<Rightarrow> campaign_state" where
  "run apiBaseUrl st es = foldl (step apiBaseUrl) st es"

section \<open>Auxiliary facts\<close>

lemma show_int_of_nat: "show_int (int n) = show_nat n"
  by (simp add: show_int_def)

lemma and_then_Inr: "and_then (Inr v) f = f v"
  by (simp add: and_then_def)


lemmas settle_defs =
  handleCreateCampaign_settle_def handleCreateCampaign_try_def and_then_def
  await_fetch_def await_json_def

lemmas outcome_splits = sum.splits fetch_outcome.splits json_outcome.splits

lemma handleCreateCampaign_proceeds:
  assumes "file_truthy (selectedFile st)" and "selectedAgent st \<noteq> []"
  shows "handleCreateCampaign apiBaseUrl net st =
           (handleCreateCampaign_settle (net (upload_request apiBaseUrl st))
              (st\<lparr>loading := True, message := [], messageType := []\<rparr>),
            [upload_request apiBaseUrl st])"
  using assms by (simp add: handleCreateCampaign_def handleCreateCampaign_begin_def)


lemma settle_selectedAgent:
  "selectedAgent (handleCreateCampaign_settle out st) = selectedAgent st"
  by (simp add: settle_defs split: outcome_splits)

lemma settle_caught:
  assumes "handleCreateCampaign_try out st = Inl e"
  shows "handleCreateCampaign_settle out st =
           st\<lparr>message := ''An error occurred: '' @ error_message e,
              messageType := ''error'', loading := False\<rparr>"
  using assms by (simp add: handleCreateCampaign_settle_def)

lemma try_rejected: "handleCreateCampaign_try (Rejected e) st = Inl e"
  by (simp add: handleCreateCampaign_try_def and_then_def await_fetch_def)

lemma try_json_rejected:
  "json r = JsonRejected e \<Longrightarrow> handleCreateCampaign_try (Resolved r) st = Inl e"
  by (simp add: handleCreateCampaign_try_def and_then_def await_fetch_def await_json_def)


lemma try_ok:
  assumes "ok r" and "json r = JsonOk data"
  shows "handleCreateCampaign_try (Resolved r) st =
           and_then (get_prop data ''lead_ids'') (\<lambda>lead_ids.
           and_then (get_prop lead_ids ''length'') (\<lambda>n.
           and_then (to_string n) (\<lambda>count.
             Inr (st\<lparr>message := ''Campaign created! Processed '' @ count @ '' leads.'',
                     messageType := ''success'', selectedFile := Null\<rparr>))))"
  using assms
  by (simp add: handleCreateCampaign_try_def and_then_def await_fetch_def await_json_def)


lemma alert_error:
  assumes "messageType st = ''error''" and "message st \<noteq> []"
  shows "CreateCampaign_alert st =
           Some \<lparr>bgColor = ''bg-red-100'', textColor = ''text-red-800'', Icon = ''XCircle'',
                 alert_text = message st\<rparr>"
  using assms by (simp add: CreateCampaign_alert_def AlertMessage_def)

lemma alert_success:
  assumes "messageType st = ''success''" and "message st \<noteq> []"
  shows "CreateCampaign_alert st =
           Some \<lparr>bgColor = ''bg-green-100'', textColor = ''text-green-800'',
                 Icon = ''CircleCheck'', alert_text = message st\<rparr>"
  using assms by (simp add: CreateCampaign_alert_def AlertMessage_def)

lemma step_selectedAgent:
  assumes "\<forall>v. e \<noteq> AgentChanged v"
  shows "selectedAgent (step apiBaseUrl st e) = selectedAgent st"
proof (cases e)
  case (AgentsSettled out)
  then show ?thesis
    by (simp add: CreateCampaign_fetchAgents_def split: sum.splits)
next
  case (FileChanged files)
  then show ?thesis by simp
next
  case (AgentChanged v)
  with assms show ?thesis by simp
next
  case ButtonClicked
  then show ?thesis by (simp add: handleCreateCampaign_begin_def)
next
  case (UploadSettled out)
  then show ?thesis by (simp add: settle_selectedAgent)
qed

lemma run_selectedAgent:
  assumes "\<forall>v. AgentChanged v \<notin> set es"
  shows "selectedAgent (run apiBaseUrl st es) = selectedAgent st"
  using assms
proof (induction es arbitrary: st)
  case Nil
  then show ?case by (simp add: run_def)
next
  case (Cons e es)
  from Cons.prems have e: "\<forall>v. e \<noteq> AgentChanged v" and es: "\<forall>v. AgentChanged v \<notin> set es"
    by auto
  have "run apiBaseUrl st (e # es) = run apiBaseUrl (step apiBaseUrl st e) es"
    by (simp add: run_def)
  then show ?case
    using Cons.IH [OF es] step_selectedAgent [OF e] by simp
qed

lemma fetchAgents_try_not_ok:
  "\<not> ok r \<Longrightarrow>
     fetchAgents_try (Resolved r) = Inl (Error (''HTTP error! status: '' @ show_nat (status r)))"
  by (simp add: fetchAgents_try_def and_then_def await_fetch_def)

lemma fetchAgents_try_ok:
  "ok r \<Longrightarrow> json r = JsonOk data \<Longrightarrow> fetchAgents_try (Resolved r) = Inr data"
  by (simp add: fetchAgents_try_def and_then_def await_fetch_def await_json_def)

lemma map_elems_objects:
  assumes "list_all is_JObj xs"
  shows "map_elems (\<lambda>agent. and_then (get_prop agent ''id'') (\<lambda>id. Inr \<lparr>key = id, agent = agent\<rparr>)) xs
         = Inr (map (\<lambda>a. \<lparr>key = (case a of JObj kvs \<Rightarrow>
                                     (case map_of kvs ''id'' of None \<Rightarrow> JUndefined | Some v \<Rightarrow> v)),
                           agent = a\<rparr>) xs)"
  using assms
proof (induction xs)
  case Nil
  then show ?case by simp
next
  case (Cons a xs)
  from Cons.prems obtain kvs where a: "a = JObj kvs"
    by (cases a) simp_all
  from Cons.prems have "list_all is_JObj xs" by simp
  then show ?case
    using Cons.IH by (simp add: a and_then_Inr)
qed

lemma option_elems_objects:
  assumes "list_all is_JObj xs"
  shows "map_elems (\<lambda>agent.
             and_then (get_prop agent ''id'') (\<lambda>id.
             and_then (get_prop agent ''name'') (\<lambda>name.
               Inr \<lparr>option_key = id, option_value = id, option_label = js_or name id\<rparr>))) xs
         = Inr (map (\<lambda>a. case a of JObj kvs \<Rightarrow>
                   \<lparr>option_key = (case map_of kvs ''id'' of None \<Rightarrow> JUndefined | Some v \<Rightarrow> v),
                    option_value = (case map_of kvs ''id'' of None \<Rightarrow> JUndefined | Some v \<Rightarrow> v),
                    option_label =
                      js_or (case map_of kvs ''name'' of None \<Rightarrow> JUndefined | Some v \<Rightarrow> v)
                            (case map_of kvs ''id'' of None \<Rightarrow> JUndefined | Some v \<Rightarrow> v)\<rparr>) xs)"
  using assms
proof (induction xs)
  case Nil
  then show ?case by simp
next
  case (Cons a xs)
  from Cons.prems obtain kvs where a: "a = JObj kvs"
    by (cases a) simp_all
  from Cons.prems have "list_all is_JObj xs" by simp
  then show ?case
    using Cons.IH by (simp add: a and_then_Inr)
qed

lemma AgentCard_object:
  "AgentCard (JObj kvs) =
     Inr (Some \<lparr>heading = js_or (case map_of kvs ''name'' of None \<Rightarrow> JUndefined | Some v \<Rightarrow> v)
                              (JStr ''Unnamed Agent''),
                id_text = (case map_of kvs ''id'' of None \<Rightarrow> JUndefined | Some v \<Rightarrow> v)\<rparr>)"
  by (simp add: AgentCard_def and_then_def)

lemma nth_object:
  assumes "list_all is_JObj xs" and "i < length xs"
  obtains kvs where "xs ! i = JObj kvs"
proof -
  from assms have "is_JObj (xs ! i)"
    by (simp add: list_all_length)
  then show thesis
    using that by (cases "xs ! i") simp_all
qed

section \<open>The submit button\<close>

text \<open>
  C1. In every state of the Campaign Creation View the submit button is enabled if and only
  if a file is selected, an agent is selected and no submission is in flight; it is disabled
  if and only if the file is unset (\<open>null\<close> or \<open>undefined\<close>), the agent id is empty, or
  a submission is in flight. The statement holds of every state, so of every reachable
  one. A click on the enabled button starts a submission, and the button is disabled in the
  state that follows.
\<close>

theorem submit_enabled_iff:
  "(\<not> disabled (CreateCampaign_button st) \<longleftrightarrow>
      (\<exists>n d. selectedFile st = File n d) \<and> selectedAgent st \<noteq> [] \<and> \<not> loading st)
   \<and> (disabled (CreateCampaign_button st) \<longleftrightarrow>
      selectedFile st = Null \<or> selectedFile st = Undefined \<or> selectedAgent st = [] \<or> loading st)
   \<and> (\<not> disabled (CreateCampaign_button st) \<longrightarrow>
      disabled (CreateCampaign_button (step apiBaseUrl st ButtonClicked)))"
  by (cases "selectedFile st")
     (simp_all add: CreateCampaign_button_def handleCreateCampaign_begin_def)

theorem submit_enabled_iff_witness:
  "\<not> disabled (CreateCampaign_button
       (initial_campaign_state\<lparr>selectedFile := File ''leads.csv'' [], selectedAgent := ''agent_42''\<rparr>))
   \<and> disabled (CreateCampaign_button
       (initial_campaign_state\<lparr>selectedFile := File ''leads.csv'' [], selectedAgent := ''agent_42'',
                                loading := True\<rparr>))
   \<and> disabled (CreateCampaign_button
       (initial_campaign_state\<lparr>selectedFile := File ''leads.csv'' []\<rparr>))
   \<and> disabled (CreateCampaign_button (initial_campaign_state\<lparr>selectedAgent := ''agent_42''\<rparr>))
   \<and> disabled (CreateCampaign_button initial_campaign_state)
   \<and> disabled (CreateCampaign_button
       (step ''http://localhost:8000''
          (initial_campaign_state\<lparr>selectedFile := File ''leads.csv'' [],
                                   selectedAgent := ''agent_42''\<rparr>) ButtonClicked))"
  using
    submit_enabled_iff [of "initial_campaign_state\<lparr>selectedFile := File ''leads.csv'' [],
       selectedAgent := ''agent_42''\<rparr>" "''http://localhost:8000''"]
    submit_enabled_iff [of "initial_campaign_state\<lparr>selectedFile := File ''leads.csv'' [],
       selectedAgent := ''agent_42'', loading := True\<rparr>"]
    submit_enabled_iff [of "initial_campaign_state\<lparr>selectedFile := File ''leads.csv'' []\<rparr>"]
    submit_enabled_iff [of "initial_campaign_state\<lparr>selectedAgent := ''agent_42''\<rparr>"]
    submit_enabled_iff [of initial_campaign_state]
  by (simp add: initial_campaign_state_def)

section \<open>Submitting a campaign\<close>

text \<open>
  C4. A submit with no file selected reports the request to select a CSV file and issues no
  request, whatever the agent selection; with a file but no agent it reports the request to
  select an agent and issues no request. A request is issued only when both are selected:
  one POST to the lead-upload endpoint, the file under \<open>file\<close> and the agent id under
  \<open>agent_id\<close>.
\<close>

theorem submit_guards:
  "(\<not> file_truthy (selectedFile st) \<longrightarrow>
      handleCreateCampaign apiBaseUrl net st =
        (st\<lparr>message := ''Please select a CSV file to upload.'', messageType := ''error''\<rparr>, []))
   \<and> (file_truthy (selectedFile st) \<and> selectedAgent st = [] \<longrightarrow>
      handleCreateCampaign apiBaseUrl net st =
        (st\<lparr>message := ''Please select an agent for the campaign.'', messageType := ''error''\<rparr>, []))
   \<and> (file_truthy (selectedFile st) \<and> selectedAgent st \<noteq> [] \<longrightarrow>
      snd (handleCreateCampaign apiBaseUrl net st) =
        [\<lparr>url = apiBaseUrl @ ''/api/v1/upload-leads'', http_method = ''POST'',
          body = [(''file'', FormFile (selectedFile st)),
                  (''agent_id'', FormText (selectedAgent st))]\<rparr>])
   \<and> (snd (handleCreateCampaign apiBaseUrl net st) \<noteq> [] \<longleftrightarrow>
        file_truthy (selectedFile st) \<and> selectedAgent st \<noteq> [])"
  by (simp add: handleCreateCampaign_def handleCreateCampaign_begin_def upload_request_def)

theorem submit_guards_witness:
  "handleCreateCampaign ''http://localhost:8000'' (\<lambda>rq. Rejected (TypeError ''Failed to fetch''))
       (initial_campaign_state\<lparr>selectedAgent := ''agent_42''\<rparr>)
     = (initial_campaign_state\<lparr>selectedAgent := ''agent_42'',
          message := ''Please select a CSV file to upload.'', messageType := ''error''\<rparr>, [])
   \<and> handleCreateCampaign ''http://localhost:8000'' (\<lambda>rq. Rejected (TypeError ''Failed to fetch''))
       (initial_campaign_state\<lparr>selectedFile := File ''leads.csv'' []\<rparr>)
     = (initial_campaign_state\<lparr>selectedFile := File ''leads.csv'' [],
          message := ''Please select an agent for the campaign.'', messageType := ''error''\<rparr>, [])
   \<and> snd (handleCreateCampaign ''http://localhost:8000''
            (\<lambda>rq. Rejected (TypeError ''Failed to fetch''))
            (initial_campaign_state\<lparr>selectedFile := File ''leads.csv'' [],
                                     selectedAgent := ''agent_42''\<rparr>))
     = [\<lparr>url = ''http://localhost:8000/api/v1/upload-leads'', http_method = ''POST'',
         body = [(''file'', FormFile (File ''leads.csv'' [])),
                 (''agent_id'', FormText ''agent_42'')]\<rparr>]"
  using
    submit_guards [of "initial_campaign_state\<lparr>selectedAgent := ''agent_42''\<rparr>"
      "''http://localhost:8000''" "\<lambda>rq. Rejected (TypeError ''Failed to fetch'')"]
    submit_guards [of "initial_campaign_state\<lparr>selectedFile := File ''leads.csv'' []\<rparr>"
      "''http://localhost:8000''" "\<lambda>rq. Rejected (TypeError ''Failed to fetch'')"]
    submit_guards [of "initial_campaign_state\<lparr>selectedFile := File ''leads.csv'' [],
        selectedAgent := ''agent_42''\<rparr>"
      "''http://localhost:8000''" "\<lambda>rq. Rejected (TypeError ''Failed to fetch'')"]
  by (simp add: initial_campaign_state_def)

text \<open>
  C2. A submit with a file and an agent selected, answered with HTTP success and a body
  whose \<open>lead_ids\<close> is an array, ends in a state whose message reports the length of
  that array, shown with the success styling; the file selection is cleared, the agent
  selection is the one before the submit, and no submission is in flight.
\<close>

theorem upload_success:
  assumes has_file: "file_truthy (selectedFile st)" and has_agent: "selectedAgent st \<noteq> []"
    and net: "net (upload_request apiBaseUrl st) = Resolved r"
    and ok: "ok r" and body: "json r = JsonOk (JObj kvs)"
    and ids: "map_of kvs ''lead_ids'' = Some (JArr ids)"
  shows "case handleCreateCampaign apiBaseUrl net st of (st', requests) \<Rightarrow>
       message st' = ''Campaign created! Processed '' @ show_nat (length ids) @ '' leads.''
     \<and> messageType st' = ''success''
     \<and> CreateCampaign_alert st' =
         Some \<lparr>bgColor = ''bg-green-100'', textColor = ''text-green-800'',
               Icon = ''CircleCheck'', alert_text = message st'\<rparr>
     \<and> selectedFile st' = Null
     \<and> selectedAgent st' = selectedAgent st
     \<and> \<not> loading st'
     \<and> requests = [upload_request apiBaseUrl st]"
proof -
  let ?st1 = "st\<lparr>loading := True, message := [], messageType := []\<rparr>"
  let ?msg = "''Campaign created! Processed '' @ show_nat (length ids) @ '' leads.''"
  have "handleCreateCampaign_try (Resolved r) ?st1 =
          Inr (?st1\<lparr>message := ?msg, messageType := ''success'', selectedFile := Null\<rparr>)"
    using ids by (simp add: try_ok [OF ok body] and_then_def show_int_of_nat)
  then have settled: "handleCreateCampaign_settle (Resolved r) ?st1 =
      ?st1\<lparr>message := ?msg, messageType := ''success'', selectedFile := Null, loading := False\<rparr>"
    by (simp add: handleCreateCampaign_settle_def)
  have run: "handleCreateCampaign apiBaseUrl net st =
      (?st1\<lparr>message := ?msg, messageType := ''success'', selectedFile := Null, loading := False\<rparr>,
       [upload_request apiBaseUrl st])"
    by (simp only: handleCreateCampaign_proceeds [OF has_file has_agent] net settled)
  show ?thesis
    by (simp add: run alert_success)
qed

theorem upload_success_witness:
  "case handleCreateCampaign ''http://localhost:8000''
          (\<lambda>rq. Resolved \<lparr>ok = True, status = 200,
             json = JsonOk (JObj [(''lead_ids'', JArr [JStr ''1'', JStr ''2'', JStr ''3''])])\<rparr>)
          (initial_campaign_state\<lparr>selectedFile := File ''leads.csv'' [],
                                   selectedAgent := ''agent_42''\<rparr>)
   of (st', requests) \<Rightarrow>
       message st' = ''Campaign created! Processed 3 leads.''
     \<and> messageType st' = ''success''
     \<and> map_option bgColor (CreateCampaign_alert st') = Some ''bg-green-100''
     \<and> selectedFile st' = Null
     \<and> selectedAgent st' = ''agent_42''
     \<and> \<not> loading st'"
proof -
  have three: "show_nat (Suc (Suc (Suc 0))) = ''3''"
    by (simp add: show_nat.simps digit_char_def)
  show ?thesis
    using upload_success
      [where st = "initial_campaign_state\<lparr>selectedFile := File ''leads.csv'' [],
                                          selectedAgent := ''agent_42''\<rparr>"
         and apiBaseUrl = "''http://localhost:8000''"
         and net = "\<lambda>rq. Resolved \<lparr>ok = True, status = 200,
             json = JsonOk (JObj [(''lead_ids'', JArr [JStr ''1'', JStr ''2'', JStr ''3''])])\<rparr>"
         and r = "\<lparr>ok = True, status = 200,
             json = JsonOk (JObj [(''lead_ids'', JArr [JStr ''1'', JStr ''2'', JStr ''3''])])\<rparr>"
         and kvs = "[(''lead_ids'', JArr [JStr ''1'', JStr ''2'', JStr ''3''])]"
         and ids = "[JStr ''1'', JStr ''2'', JStr ''3'']"]
    by (simp add: three initial_campaign_state_def split: prod.splits)
qed




text \<open>
  C6. When the POST fails with no response (\<open>fetch\<close> rejects with \<open>e\<close>), or the body of
  the response cannot be decoded (\<open>json()\<close> rejects with \<open>e\<close>), the message is
  \<open>An error occurred: \<close> followed by the message of \<open>e\<close>, shown with the failure
  styling, and no submission is in flight.
\<close>

theorem upload_transport_failure:
  assumes has_file: "file_truthy (selectedFile st)" and has_agent: "selectedAgent st \<noteq> []"
    and failed: "net (upload_request apiBaseUrl st) = Rejected e
         \<or> (\<exists>r. net (upload_request apiBaseUrl st) = Resolved r \<and> json r = JsonRejected e)"
  shows "case handleCreateCampaign apiBaseUrl net st of (st', requests) \<Rightarrow>
       message st' = ''An error occurred: '' @ error_message e
     \<and> sublist (error_message e) (message st')
     \<and> messageType st' = ''error''
     \<and> CreateCampaign_alert st' =
         Some \<lparr>bgColor = ''bg-red-100'', textColor = ''text-red-800'', Icon = ''XCircle'',
               alert_text = message st'\<rparr>
     \<and> \<not> loading st'
     \<and> selectedFile st' = selectedFile st
     \<and> selectedAgent st' = selectedAgent st"
proof -
  let ?st1 = "st\<lparr>loading := True, message := [], messageType := []\<rparr>"
  let ?out = "net (upload_request apiBaseUrl st)"
  let ?st' = "handleCreateCampaign_settle ?out ?st1"
  have run: "handleCreateCampaign apiBaseUrl net st = (?st', [upload_request apiBaseUrl st])"
    by (simp only: handleCreateCampaign_proceeds [OF has_file has_agent])
  have thrown: "handleCreateCampaign_try ?out ?st1 = Inl e"
    using failed by (auto simp add: try_rejected try_json_rejected)
  have settled: "?st' = ?st1\<lparr>message := ''An error occurred: '' @ error_message e,
                             messageType := ''error'', loading := False\<rparr>"
    using thrown by (rule settle_caught)
  have m: "message ?st' = ''An error occurred: '' @ error_message e"
    by (simp add: settled)
  have "sublist (error_message e) (''An error occurred: '' @ error_message e)"
    by (rule sublist_append_leftI)
  then have inc: "sublist (error_message e) (message ?st')"
    by (simp only: m)
  have type: "messageType ?st' = ''error''" and nonempty: "message ?st' \<noteq> []"
    and idle: "\<not> loading ?st'" and file_kept: "selectedFile ?st' = selectedFile st"
    and agent_kept: "selectedAgent ?st' = selectedAgent st"
    by (simp_all add: settled)
  have alert: "CreateCampaign_alert ?st' =
      Some \<lparr>bgColor = ''bg-red-100'', textColor = ''text-red-800'', Icon = ''XCircle'',
            alert_text = message ?st'\<rparr>"
    using type nonempty by (rule alert_error)
  show ?thesis
    unfolding run prod.case
    using m inc type alert idle file_kept agent_kept by blast
qed

theorem upload_transport_failure_witness:
  "(case handleCreateCampaign ''http://localhost:8000''
          (\<lambda>rq. Rejected (TypeError ''Failed to fetch''))
          (initial_campaign_state\<lparr>selectedFile := File ''leads.csv'' [],
                                   selectedAgent := ''agent_42''\<rparr>)
    of (st', requests) \<Rightarrow>
       message st' = ''An error occurred: Failed to fetch''
     \<and> messageType st' = ''error''
     \<and> map_option bgColor (CreateCampaign_alert st') = Some ''bg-red-100''
     \<and> \<not> loading st')
   \<and> (case handleCreateCampaign ''http://localhost:8000''
          (\<lambda>rq. Resolved \<lparr>ok = True, status = 200,
             json = JsonRejected (SyntaxError ''Unexpected end of JSON input'')\<rparr>)
          (initial_campaign_state\<lparr>selectedFile := File ''leads.csv'' [],
                                   selectedAgent := ''agent_42''\<rparr>)
    of (st', requests) \<Rightarrow>
       message st' = ''An error occurred: Unexpected end of JSON input''
     \<and> messageType st' = ''error''
     \<and> \<not> loading st')"
  using
    upload_transport_failure
      [where st = "initial_campaign_state\<lparr>selectedFile := File ''leads.csv'' [],
                                          selectedAgent := ''agent_42''\<rparr>"
         and apiBaseUrl = "''http://localhost:8000''"
         and net = "\<lambda>rq. Rejected (TypeError ''Failed to fetch'')"
         and e = "TypeError ''Failed to fetch''"]
    upload_transport_failure
      [where st = "initial_campaign_state\<lparr>selectedFile := File ''leads.csv'' [],
                                          selectedAgent := ''agent_42''\<rparr>"
         and apiBaseUrl = "''http://localhost:8000''"
         and net = "\<lambda>rq. Resolved \<lparr>ok = True, status = 200,
             json = JsonRejected (SyntaxError ''Unexpected end of JSON input'')\<rparr>"
         and e = "SyntaxError ''Unexpected end of JSON input''"]
  by (simp add: initial_campaign_state_def split: prod.splits)




section \<open>Loading the agents in the Campaign Creation View\<close>

text \<open>
  C7. The agent-load operation of the Campaign Creation View never modifies the selected
  agent: whatever the fetch returns, a roster of exactly one agent included, the selection
  after loading is the one before, and from the initial state it is empty. It stays empty
  through every sequence of events in which the user does not choose an agent, and is the
  chosen id once the user does.
\<close>

theorem fetchAgents_keeps_selectedAgent:
  "selectedAgent (CreateCampaign_fetchAgents out st) = selectedAgent st
   \<and> selectedAgent (CreateCampaign_fetchAgents out initial_campaign_state) = []
   \<and> ((\<forall>v. AgentChanged v \<notin> set es) \<longrightarrow>
        selectedAgent (run apiBaseUrl initial_campaign_state es) = [])
   \<and> selectedAgent (run apiBaseUrl initial_campaign_state (es @ [AgentChanged v])) = v"
proof -
  have frame: "selectedAgent (CreateCampaign_fetchAgents out' st') = selectedAgent st'"
    for out' st'
    by (simp add: CreateCampaign_fetchAgents_def split: sum.splits)
  have init: "selectedAgent initial_campaign_state = []"
    by (simp add: initial_campaign_state_def)
  have chosen: "selectedAgent (run apiBaseUrl initial_campaign_state (es @ [AgentChanged v])) = v"
    by (simp add: run_def)
  show ?thesis
    using frame init chosen run_selectedAgent [of es apiBaseUrl initial_campaign_state]
    by simp
qed

theorem fetchAgents_keeps_selectedAgent_witness:
  "selectedAgent (CreateCampaign_fetchAgents
      (Resolved \<lparr>ok = True, status = 200,
         json = JsonOk (JArr [JObj [(''id'', JStr ''agent_42''), (''name'', JStr ''Ada'')]])\<rparr>)
      initial_campaign_state) = []
   \<and> agents (CreateCampaign_fetchAgents
      (Resolved \<lparr>ok = True, status = 200,
         json = JsonOk (JArr [JObj [(''id'', JStr ''agent_42''), (''name'', JStr ''Ada'')]])\<rparr>)
      initial_campaign_state) = JArr [JObj [(''id'', JStr ''agent_42''), (''name'', JStr ''Ada'')]]
   \<and> selectedAgent (run ''http://localhost:8000'' initial_campaign_state
      [AgentsSettled (Resolved \<lparr>ok = True, status = 200,
         json = JsonOk (JArr [JObj [(''id'', JStr ''agent_42''), (''name'', JStr ''Ada'')]])\<rparr>),
       FileChanged [(''leads.csv'', [])], ButtonClicked]) = []"
  using fetchAgents_keeps_selectedAgent
    [where out = "Resolved \<lparr>ok = True, status = 200,
         json = JsonOk (JArr [JObj [(''id'', JStr ''agent_42''), (''name'', JStr ''Ada'')]])\<rparr>"
       and st = initial_campaign_state
       and apiBaseUrl = "''http://localhost:8000''"
       and es = "[AgentsSettled (Resolved \<lparr>ok = True, status = 200,
         json = JsonOk (JArr [JObj [(''id'', JStr ''agent_42''), (''name'', JStr ''Ada'')]])\<rparr>),
       FileChanged [(''leads.csv'', [])], ButtonClicked]"]
  by (simp add: CreateCampaign_fetchAgents_def fetchAgents_try_def and_then_def await_fetch_def
      await_json_def)

section \<open>The Agent Roster View\<close>

text \<open>
  C5. After a successful fetch of a collection of agents, the roster view shows the
  empty-state message when the collection has no entries, and otherwise exactly one card
  per entry, in order, each keyed by its entry's \<open>id\<close>. After a non-success HTTP status
  the view is the error state, whose message contains the status code; it is neither the
  agent list nor the empty-state message.
\<close>

theorem roster_view:
  "(ok r \<and> json r = JsonOk (JArr xs) \<and> list_all is_JObj xs \<longrightarrow>
      (xs = [] \<longrightarrow>
         Dashboard (Dashboard_fetchAgents (Resolved r) initial_dashboard_state)
           = Inr No_agents_found)
      \<and> (xs \<noteq> [] \<longrightarrow>
           (\<exists>cards. Dashboard (Dashboard_fetchAgents (Resolved r) initial_dashboard_state)
                      = Inr (Agent_grid cards)
              \<and> length cards = length xs
              \<and> (\<forall>i < length xs.
                    agent (cards ! i) = xs ! i
                    \<and> get_prop (xs ! i) ''id'' = Inr (key (cards ! i))
                    \<and> (\<exists>card. AgentCard (agent (cards ! i)) = Inr (Some card))))))
   \<and> (\<not> ok r \<longrightarrow>
      Dashboard (Dashboard_fetchAgents (Resolved r) initial_dashboard_state) =
        Inr (Error_loading_agents (JStr (''HTTP error! status: '' @ show_nat (status r))))
      \<and> sublist (show_nat (status r)) (''HTTP error! status: '' @ show_nat (status r))
      \<and> Dashboard (Dashboard_fetchAgents (Resolved r) initial_dashboard_state)
           \<noteq> Inr No_agents_found
      \<and> (\<forall>cards. Dashboard (Dashboard_fetchAgents (Resolved r) initial_dashboard_state)
           \<noteq> Inr (Agent_grid cards)))"
proof (intro conjI impI)
  let ?st = "Dashboard_fetchAgents (Resolved r) initial_dashboard_state"
  let ?cards = "map (\<lambda>a. \<lparr>key = (case a of JObj kvs \<Rightarrow>
                                     (case map_of kvs ''id'' of None \<Rightarrow> JUndefined | Some v \<Rightarrow> v)),
                           agent = a\<rparr>) xs"
  {
    assume h: "ok r \<and> json r = JsonOk (JArr xs) \<and> list_all is_JObj xs"
    then have ok: "ok r" and body: "json r = JsonOk (JArr xs)" and objs: "list_all is_JObj xs"
      by simp_all
    have st: "?st = \<lparr>dashboard_state.agents = JArr xs, dashboard_state.loading = False,
                     dashboard_state.error = JNull\<rparr>"
      by (simp add: Dashboard_fetchAgents_def fetchAgents_try_ok [OF ok body]
          initial_dashboard_state_def)
    {
      assume "xs = []"
      then show "Dashboard ?st = Inr No_agents_found"
        by (simp add: st Dashboard_def and_then_Inr)
    }
    {
      assume nonempty: "xs \<noteq> []"
      have view: "Dashboard ?st = Inr (Agent_grid ?cards)"
        using nonempty by (simp add: st Dashboard_def and_then_Inr map_elems_objects [OF objs])
      have len: "length ?cards = length xs"
        by simp
      have each: "agent (?cards ! i) = xs ! i
          \<and> get_prop (xs ! i) ''id'' = Inr (key (?cards ! i))
          \<and> (\<exists>card. AgentCard (agent (?cards ! i)) = Inr (Some card))"
        if i: "i < length xs" for i
      proof -
        obtain kvs where a: "xs ! i = JObj kvs"
          using objs i by (rule nth_object)
        show ?thesis
          using i by (simp add: a AgentCard_object)
      qed
      show "\<exists>cards. Dashboard ?st = Inr (Agent_grid cards) \<and> length cards = length xs
              \<and> (\<forall>i < length xs.
                    agent (cards ! i) = xs ! i
                    \<and> get_prop (xs ! i) ''id'' = Inr (key (cards ! i))
                    \<and> (\<exists>card. AgentCard (agent (cards ! i)) = Inr (Some card)))"
        using view len each by blast
    }
  }
  {
    assume not_ok: "\<not> ok r"
    let ?msg = "''HTTP error! status: '' @ show_nat (status r)"
    have st: "?st = \<lparr>dashboard_state.agents = JArr [], dashboard_state.loading = False,
                     dashboard_state.error = JStr ?msg\<rparr>"
      by (simp add: Dashboard_fetchAgents_def fetchAgents_try_not_ok [OF not_ok]
          initial_dashboard_state_def)
    show view: "Dashboard ?st = Inr (Error_loading_agents (JStr ?msg))"
      by (simp add: st Dashboard_def)
    show "sublist (show_nat (status r)) ?msg"
      by (rule sublist_append_leftI)
    show "Dashboard ?st \<noteq> Inr No_agents_found"
      by (simp only: view) simp
    show "\<forall>cards. Dashboard ?st \<noteq> Inr (Agent_grid cards)"
      by (simp only: view) simp
  }
qed

theorem roster_view_witness:
  "Dashboard (Dashboard_fetchAgents
       (Resolved \<lparr>ok = True, status = 200,
          json = JsonOk (JArr [JObj [(''id'', JStr ''agent_42''), (''name'', JStr ''Ada'')],
                               JObj [(''id'', JStr ''agent_7'')]])\<rparr>)
       initial_dashboard_state)
     = Inr (Agent_grid
         [\<lparr>key = JStr ''agent_42'',
           agent = JObj [(''id'', JStr ''agent_42''), (''name'', JStr ''Ada'')]\<rparr>,
          \<lparr>key = JStr ''agent_7'', agent = JObj [(''id'', JStr ''agent_7'')]\<rparr>])
   \<and> Dashboard (Dashboard_fetchAgents
       (Resolved \<lparr>ok = True, status = 200, json = JsonOk (JArr [])\<rparr>) initial_dashboard_state)
     = Inr No_agents_found
   \<and> Dashboard (Dashboard_fetchAgents
       (Resolved \<lparr>ok = False, status = 500, json = JsonOk (JObj [])\<rparr>) initial_dashboard_state)
     = Inr (Error_loading_agents (JStr ''HTTP error! status: 500''))"
proof -
  let ?xs = "[JObj [(''id'', JStr ''agent_42''), (''name'', JStr ''Ada'')],
              JObj [(''id'', JStr ''agent_7'')]]"
  have code: "show_nat 500 = ''500''"
    by (simp add: show_nat.simps digit_char_def)
  from roster_view [of "\<lparr>ok = True, status = 200, json = JsonOk (JArr ?xs)\<rparr>" ?xs]
  obtain cards where
    view: "Dashboard (Dashboard_fetchAgents
              (Resolved \<lparr>ok = True, status = 200, json = JsonOk (JArr ?xs)\<rparr>)
              initial_dashboard_state) = Inr (Agent_grid cards)"
    and len: "length cards = length ?xs"
    and each: "\<forall>i < length ?xs. agent (cards ! i) = ?xs ! i
                 \<and> get_prop (?xs ! i) ''id'' = Inr (key (cards ! i))"
    by auto
  from len obtain c0 c1 where cards: "cards = [c0, c1]"
    by (auto simp add: length_Suc_conv)
  from each [rule_format, of 0] each [rule_format, of 1]
  have "c0 = \<lparr>key = JStr ''agent_42'',
               agent = JObj [(''id'', JStr ''agent_42''), (''name'', JStr ''Ada'')]\<rparr>"
    and "c1 = \<lparr>key = JStr ''agent_7'', agent = JObj [(''id'', JStr ''agent_7'')]\<rparr>"
    by (simp_all add: cards)
  with view cards have two: "Dashboard (Dashboard_fetchAgents
       (Resolved \<lparr>ok = True, status = 200, json = JsonOk (JArr ?xs)\<rparr>) initial_dashboard_state)
     = Inr (Agent_grid
         [\<lparr>key = JStr ''agent_42'',
           agent = JObj [(''id'', JStr ''agent_42''), (''name'', JStr ''Ada'')]\<rparr>,
          \<lparr>key = JStr ''agent_7'', agent = JObj [(''id'', JStr ''agent_7'')]\<rparr>])"
    by simp
  show ?thesis
    using two
      roster_view [of "\<lparr>ok = True, status = 200, json = JsonOk (JArr [])\<rparr>" "[]"]
      roster_view [of "\<lparr>ok = False, status = 500, json = JsonOk (JObj [])\<rparr>"]
    by (simp add: code)
qed

section \<open>Agent labels\<close>

text \<open>
  C8. For every agent of a roster, the option of the selection control carries the agent's
  id as its value. When the agent's name is absent (no \<open>name\<close>, \<open>null\<close>, or the empty
  string) the option's label is the id and the roster card's heading is the fixed label
  \<open>Unnamed Agent\<close>; when the name is a non-empty string both show it as it is.
\<close>

theorem name_fallback:
  assumes objects: "list_all is_JObj xs" and nonempty: "xs \<noteq> []"
  shows "\<exists>options. AgentSelect (JArr xs) selected False JNull = Inr (Select selected options)
     \<and> length options = length xs
     \<and> (\<forall>i < length xs. \<forall>kvs ident. xs ! i = JObj kvs \<and> map_of kvs ''id'' = Some ident \<longrightarrow>
           option_value (options ! i) = ident
           \<and> (map_of kvs ''name'' = None \<or> map_of kvs ''name'' = Some JNull
                \<or> map_of kvs ''name'' = Some (JStr []) \<longrightarrow>
                 option_label (options ! i) = ident
                 \<and> AgentCard (xs ! i) =
                     Inr (Some \<lparr>heading = JStr ''Unnamed Agent'', id_text = ident\<rparr>))
           \<and> (\<forall>n. map_of kvs ''name'' = Some (JStr n) \<and> n \<noteq> [] \<longrightarrow>
                 option_label (options ! i) = JStr n
                 \<and> AgentCard (xs ! i) = Inr (Some \<lparr>heading = JStr n, id_text = ident\<rparr>)))"
proof -
  let ?options = "map (\<lambda>a. case a of JObj kvs \<Rightarrow>
                   \<lparr>option_key = (case map_of kvs ''id'' of None \<Rightarrow> JUndefined | Some v \<Rightarrow> v),
                    option_value = (case map_of kvs ''id'' of None \<Rightarrow> JUndefined | Some v \<Rightarrow> v),
                    option_label =
                      js_or (case map_of kvs ''name'' of None \<Rightarrow> JUndefined | Some v \<Rightarrow> v)
                            (case map_of kvs ''id'' of None \<Rightarrow> JUndefined | Some v \<Rightarrow> v)\<rparr>) xs"
  have view: "AgentSelect (JArr xs) selected False JNull = Inr (Select selected ?options)"
    using nonempty
    by (simp add: AgentSelect_def and_then_Inr option_elems_objects [OF objects])
  have len: "length ?options = length xs"
    by simp
  have each: "option_value (?options ! i) = ident
      \<and> (map_of kvs ''name'' = None \<or> map_of kvs ''name'' = Some JNull
           \<or> map_of kvs ''name'' = Some (JStr []) \<longrightarrow>
            option_label (?options ! i) = ident
            \<and> AgentCard (xs ! i) =
                Inr (Some \<lparr>heading = JStr ''Unnamed Agent'', id_text = ident\<rparr>))
      \<and> (\<forall>n. map_of kvs ''name'' = Some (JStr n) \<and> n \<noteq> [] \<longrightarrow>
            option_label (?options ! i) = JStr n
            \<and> AgentCard (xs ! i) = Inr (Some \<lparr>heading = JStr n, id_text = ident\<rparr>))"
    if "i < length xs" and "xs ! i = JObj kvs" and "map_of kvs ''id'' = Some ident"
    for i kvs ident
    using that by (auto simp add: AgentCard_object js_or_def)
  show ?thesis
    using view len each by blast
qed

theorem name_fallback_witness:
  "AgentSelect (JArr [JObj [(''id'', JStr ''agent_42''), (''name'', JStr ''Ada'')],
                      JObj [(''id'', JStr ''agent_7''), (''name'', JNull)]]) [] False JNull
     = Inr (Select []
         [\<lparr>option_key = JStr ''agent_42'', option_value = JStr ''agent_42'',
           option_label = JStr ''Ada''\<rparr>,
          \<lparr>option_key = JStr ''agent_7'', option_value = JStr ''agent_7'',
           option_label = JStr ''agent_7''\<rparr>])
   \<and> AgentCard (JObj [(''id'', JStr ''agent_42''), (''name'', JStr ''Ada'')])
     = Inr (Some \<lparr>heading = JStr ''Ada'', id_text = JStr ''agent_42''\<rparr>)
   \<and> AgentCard (JObj [(''id'', JStr ''agent_7''), (''name'', JNull)])
     = Inr (Some \<lparr>heading = JStr ''Unnamed Agent'', id_text = JStr ''agent_7''\<rparr>)"
proof -
  let ?a = "JObj [(''id'', JStr ''agent_42''), (''name'', JStr ''Ada'')]"
  let ?b = "JObj [(''id'', JStr ''agent_7''), (''name'', JNull)]"
  have objects: "list_all is_JObj [?a, ?b]" and nonempty: "[?a, ?b] \<noteq> []"
    by simp_all
  from name_fallback [OF objects nonempty, of "[]"]
  obtain options where
    view: "AgentSelect (JArr [?a, ?b]) [] False JNull = Inr (Select [] options)"
    and len: "length options = length [?a, ?b]"
    and each: "\<forall>i < length [?a, ?b]. \<forall>kvs ident.
           [?a, ?b] ! i = JObj kvs \<and> map_of kvs ''id'' = Some ident \<longrightarrow>
           option_value (options ! i) = ident
           \<and> (map_of kvs ''name'' = None \<or> map_of kvs ''name'' = Some JNull
                \<or> map_of kvs ''name'' = Some (JStr []) \<longrightarrow>
                 option_label (options ! i) = ident
                 \<and> AgentCard ([?a, ?b] ! i) =
                     Inr (Some \<lparr>heading = JStr ''Unnamed Agent'', id_text = ident\<rparr>))
           \<and> (\<forall>n. map_of kvs ''name'' = Some (JStr n) \<and> n \<noteq> [] \<longrightarrow>
                 option_label (options ! i) = JStr n
                 \<and> AgentCard ([?a, ?b] ! i) = Inr (Some \<lparr>heading = JStr n, id_text = ident\<rparr>))"
    by blast
  from each [rule_format, of 0 "[(''id'', JStr ''agent_42''), (''name'', JStr ''Ada'')]"
      "JStr ''agent_42''"]
  have first: "option_label (options ! 0) = JStr ''Ada''"
    and card_a: "AgentCard ?a = Inr (Some \<lparr>heading = JStr ''Ada'', id_text = JStr ''agent_42''\<rparr>)"
    by simp_all
  from each [rule_format, of 1 "[(''id'', JStr ''agent_7''), (''name'', JNull)]"
      "JStr ''agent_7''"]
  have second: "option_label (options ! 1) = JStr ''agent_7''"
    and card_b: "AgentCard ?b =
      Inr (Some \<lparr>heading = JStr ''Unnamed Agent'', id_text = JStr ''agent_7''\<rparr>)"
    by simp_all
  have computed: "AgentSelect (JArr [?a, ?b]) [] False JNull
     = Inr (Select []
         [\<lparr>option_key = JStr ''agent_42'', option_value = JStr ''agent_42'',
           option_label = JStr ''Ada''\<rparr>,
          \<lparr>option_key = JStr ''agent_7'', option_value = JStr ''agent_7'',
           option_label = JStr ''agent_7''\<rparr>])"
    by (simp add: AgentSelect_def and_then_def js_or_def)
  show ?thesis
    using computed card_a card_b by simp
qed

section \<open>Navigation\<close>

text \<open>
  C10. The application renders the Campaign Creation View exactly when the active section
  is \<open>create-campaign\<close>; it renders the Agent Roster View when the active section is
  \<open>dashboard\<close> and also for every other section value.
\<close>

theorem renderContent_sections:
  "(renderContent s = CreateCampaign_element API_BASE_URL \<longleftrightarrow> s = ''create-campaign'')
   \<and> (renderContent s = Dashboard_element API_BASE_URL \<longleftrightarrow> s \<noteq> ''create-campaign'')
   \<and> renderContent ''dashboard'' = Dashboard_element API_BASE_URL"
  by (simp add: renderContent_def)

theorem renderContent_sections_witness:
  "renderContent ''create-campaign'' = CreateCampaign_element API_BASE_URL
   \<and> renderContent ''dashboard'' = Dashboard_element API_BASE_URL
   \<and> renderContent ''settings'' = Dashboard_element API_BASE_URL"
  using renderContent_sections [of "''create-campaign''"]
        renderContent_sections [of "''settings''"]
  by simp

end
